theory Spec2Isabelle
  imports
    Main
    "HOL-Library.Word"
    "HOL-Library.Multiset"
    "HOL-Library.Char_ord"
    "HOL-Library.List_Lexorder"
    "HOL-Library.Product_Lexorder"
begin

section \<open>The dengue dashboard script (\<^verbatim>\<open>Dashboard.py\<close>)\<close>

text \<open>
  The program is one Streamlit script. Every interaction of the user runs the script once
  from its first line to its last: the CSV file is read, the widgets deliver the current
  selections, the ``Add Data'' handler runs when its button was pressed, and then the
  charts and the table are drawn from the variable \<^verbatim>\<open>df\<close> as it stands at that line.
  One such run is modelled here as the function \<open>script\<close>, from the loaded table and
  the widgets' values to what is shown.

  The table engine (pandas) is not part of the repository. Its operations are modelled
  from their documented behaviour, each beside its use: a data frame is the list of its
  rows in order, a boolean mask is \<open>filter\<close>, \<^verbatim>\<open>concat\<close> is \<open>@\<close>,
  \<^verbatim>\<open>groupby(...).agg(sum)\<close> yields one row per distinct key in ascending key order,
  and \<^verbatim>\<open>sort_values\<close> on two columns is a lexicographic sort that keeps ties in
  their order and puts missing values last. Row labels (the index) are not modelled.
\<close>

subsection \<open>Rows and columns\<close>

text \<open>
  \<^verbatim>\<open>read_csv\<close> gives the integer columns the type int64. \<^verbatim>\<open>Year\<close> is only
  compared and never computed with, so it is an \<open>int\<close>; the two count columns are summed,
  and a pandas sum of an int64 column wraps around, so they are 64-bit words (read as
  signed by \<open>sint\<close>).
\<close>

type_synonym int64 = "64 word"

record csv_row =
  Region :: string
  Year :: int
  Month :: string
  Dengue_Cases :: int64
  Dengue_Deaths :: int64

text \<open>
  After line 28 every row carries \<^verbatim>\<open>Month_Num\<close>. \<^verbatim>\<open>Series.map\<close> with a
  dictionary gives NaN for a value that is not a key: \<open>None\<close> here.
\<close>

record row = csv_row +
  Month_Num :: "int option"

type_synonym dataframe = "row list"

definition month_mapping_items :: "(string \<times> int) list" where
  "month_mapping_items =
     [(''January'', 1), (''February'', 2), (''March'', 3), (''April'', 4),
      (''May'', 5), (''June'', 6), (''July'', 7), (''August'', 8),
      (''September'', 9), (''October'', 10), (''November'', 11), (''December'', 12)]"

definition month_mapping :: "string \<rightharpoonup> int" where
  "month_mapping = map_of month_mapping_items"

text \<open>\<^verbatim>\<open>list(month_mapping.keys())\<close>: the keys in insertion order.\<close>

definition month_names :: "string list" where
  "month_names = map fst month_mapping_items"

text \<open>\<^verbatim>\<open>df['Month_Num'] = df['Month'].map(month_mapping)\<close>, for one row.\<close>

definition with_Month_Num :: "csv_row \<Rightarrow> row" where
  "with_Month_Num r =
     \<lparr>Region = Region r, Year = Year r, Month = Month r,
      Dengue_Cases = Dengue_Cases r, Dengue_Deaths = Dengue_Deaths r,
      Month_Num = month_mapping (Month r)\<rparr>"

text \<open>\<^verbatim>\<open>.drop(columns=["Month_Num"])\<close>, for one row.\<close>

definition drop_Month_Num :: "row \<Rightarrow> csv_row" where
  "drop_Month_Num r =
     \<lparr>Region = Region r, Year = Year r, Month = Month r,
      Dengue_Cases = Dengue_Cases r, Dengue_Deaths = Dengue_Deaths r\<rparr>"

subsection \<open>Python's \<^verbatim>\<open>str\<close> and \<^verbatim>\<open>int\<close> on integers\<close>

datatype py_error = ValueError

definition digit_char :: "nat \<Rightarrow> char" where
  "digit_char d = char_of (48 + d)"

fun str_nat :: "nat \<Rightarrow> string" where
  "str_nat n = (if n < 10 then [digit_char n] else str_nat (n div 10) @ [digit_char (n mod 10)])"

declare str_nat.simps [simp del]

text \<open>\<^verbatim>\<open>str(y)\<close> for an integer: decimal, a minus sign for a negative one.\<close>

definition str_int :: "int \<Rightarrow> string" where
  "str_int i = (if i < 0 then CHR ''-'' # str_nat (nat (- i)) else str_nat (nat i))"

text \<open>
  \<^verbatim>\<open>int(s)\<close> on text, base 10, for ASCII input: the blanks around the number are
  skipped (tab, line feed, vertical tab, form feed, carriage return and space: the
  characters 9 to 13 and 32, and no others), one sign may lead, and single underscores may
  stand between digits. Anything else raises \<^verbatim>\<open>ValueError\<close> (\<open>None\<close>). The model
  covers ASCII text only: in text with characters beyond ASCII Python reads further blanks
  and digits, and it refuses numbers of more than 4300 digits. The year selector delivers
  neither.
\<close>

definition is_space :: "char \<Rightarrow> bool" where
  "is_space c =
     (let n = (of_char c :: nat)
      in (9 \<le> n \<and> n \<le> 13) \<or> n = 32)"

definition strip :: "string \<Rightarrow> string" where
  "strip s = rev (dropWhile is_space (rev (dropWhile is_space s)))"

definition digit_val :: "char \<Rightarrow> nat option" where
  "digit_val c =
     (let n = (of_char c :: nat)
      in if 48 \<le> n \<and> n \<le> 57 then Some (n - 48) else None)"

text \<open>
  The digits of the number, left to right; \<open>after_digit\<close> says whether the character
  before was a digit, which is where an underscore or the end may come.
\<close>

fun int_digits :: "nat \<Rightarrow> bool \<Rightarrow> string \<Rightarrow> nat option" where
  "int_digits acc after_digit [] = (if after_digit then Some acc else None)"
| "int_digits acc after_digit (c # cs) =
     (if c = CHR ''_'' then
        (if after_digit \<and> cs \<noteq> [] then int_digits acc False cs else None)
      else
        (case digit_val c of
           None \<Rightarrow> None
         | Some d \<Rightarrow> int_digits (10 * acc + d) True cs))"

definition py_int :: "string \<Rightarrow> int option" where
  "py_int s =
     (case strip s of
        [] \<Rightarrow> None
      | c # cs \<Rightarrow>
          if c = CHR ''-'' then map_option (\<lambda>n. - int n) (int_digits 0 False cs)
          else if c = CHR ''+'' then map_option int (int_digits 0 False cs)
          else map_option int (int_digits 0 False (c # cs)))"

subsection \<open>The widgets' options\<close>

text \<open>\<^verbatim>\<open>sorted(df['Region'].unique())\<close> and \<^verbatim>\<open>sorted(df['Year'].unique())\<close>.\<close>

definition region_options :: "dataframe \<Rightarrow> string list" where
  "region_options df = sort (remdups (map Region df))"

definition year_options :: "dataframe \<Rightarrow> int list" where
  "year_options df = sort (remdups (map Year df))"

definition data_view_options :: "string list" where
  "data_view_options = [''-- Select --'', ''Dengue Cases'', ''Dengue Deaths'', ''Both'']"

definition regions_with_empty :: "dataframe \<Rightarrow> string list" where
  "regions_with_empty df = [''-- Select Region --''] @ region_options df"

text \<open>\<^verbatim>\<open>[str(y) for y in range(2010, 2031)]\<close>.\<close>

definition year_texts :: "string list" where
  "year_texts = map str_int [2010..2030]"

definition years_with_empty :: "string list" where
  "years_with_empty = [''-- Select Year --''] @ year_texts"

definition months_with_empty :: "string list" where
  "months_with_empty = [''-- Select Month --''] @ month_names"

text \<open>
  What the widgets deliver in one run. A multiselect delivers a list of its options, a
  radio or a selectbox one of its options, the button whether it was just pressed. The
  two number inputs are declared with \<^verbatim>\<open>min_value=0\<close>: the widget delivers no
  value below it. The handler below is nevertheless a function of any value.
\<close>


record inputs =
  selected_regions :: "string list"
  selected_years :: "int list"
  selected_months :: "string list"
  data_view_option :: string
  new_region :: string
  new_year :: string
  new_month :: string
  new_cases :: int64
  new_deaths :: int64
  add_data_clicked :: bool

subsection \<open>The ``Add Data'' handler (lines 72 to 89)\<close>

datatype sidebar_message =
  Please_select_valid    \<comment> \<open>\<^verbatim>\<open>st.sidebar.error(...)\<close>, line 75\<close>
| New_data_added         \<comment> \<open>\<^verbatim>\<open>st.sidebar.success(...)\<close>, line 89\<close>

text \<open>The dictionary \<^verbatim>\<open>new_data\<close> as a one-row frame with its \<^verbatim>\<open>Month_Num\<close>.\<close>

definition new_row :: "string \<Rightarrow> int \<Rightarrow> string \<Rightarrow> int64 \<Rightarrow> int64 \<Rightarrow> row" where
  "new_row region year month cases deaths =
     \<lparr>Region = region, Year = year, Month = month,
      Dengue_Cases = cases, Dengue_Deaths = deaths,
      Month_Num = month_mapping month\<rparr>"

text \<open>
  The body of \<^verbatim>\<open>if st.sidebar.button("Add Data")\<close>: the new \<^verbatim>\<open>df\<close> and the message
  shown, or the exception of \<^verbatim>\<open>int(new_year)\<close>.
\<close>

definition add_data ::
  "dataframe \<Rightarrow> string \<Rightarrow> string \<Rightarrow> string \<Rightarrow> int64 \<Rightarrow> int64
     \<Rightarrow> py_error + dataframe \<times> sidebar_message" where
  "add_data df region year month cases deaths =
     (if region = ''-- Select Region --'' \<or> month = ''-- Select Month --''
           \<or> year = ''-- Select Year --''
      then Inr (df, Please_select_valid)
      else
        (case py_int year of
           None \<Rightarrow> Inl ValueError
         | Some y \<Rightarrow> Inr (df @ [new_row region y month cases deaths], New_data_added)))"


subsection \<open>Filtering and grouping (lines 93 to 137)\<close>

text \<open>Lines 94 to 96: the two masks, and the month mask when months are selected.\<close>

definition filtered_df :: "dataframe \<Rightarrow> string list \<Rightarrow> int list \<Rightarrow> string list \<Rightarrow> dataframe" where
  "filtered_df df regions years months =
     (let f = filter (\<lambda>r. Region r \<in> set regions \<and> Year r \<in> set years) df
      in if months \<noteq> [] then filter (\<lambda>r. Month r \<in> set months) f else f)"

record group_row =
  group_Year :: int
  group_Region :: string
  sum_Dengue_Cases :: int64
  sum_Dengue_Deaths :: int64

definition group_key :: "row \<Rightarrow> int \<times> string" where
  "group_key r = (Year r, Region r)"

text \<open>
  The distinct keys in ascending order (\<^verbatim>\<open>groupby\<close> sorts its groups). pandas leaves
  out rows whose key is missing; \<^verbatim>\<open>Year\<close> and \<^verbatim>\<open>Region\<close> of a filtered row are
  among the selected values, so no key is missing.
\<close>

definition group_keys :: "dataframe \<Rightarrow> (int \<times> string) list" where
  "group_keys df = sort (remdups (map group_key df))"

definition group_of :: "dataframe \<Rightarrow> int \<times> string \<Rightarrow> dataframe" where
  "group_of df k = filter (\<lambda>r. group_key r = k) df"

text \<open>
  \<^verbatim>\<open>groupby(['Year', 'Region'], as_index=False).agg({'Dengue_Cases': 'sum',
  'Dengue_Deaths': 'sum'})\<close>: one row per key, the two columns summed over the key's rows.
\<close>

definition yearly_grouped :: "dataframe \<Rightarrow> group_row list" where
  "yearly_grouped df =
     map (\<lambda>k. \<lparr>group_Year = fst k, group_Region = snd k,
               sum_Dengue_Cases = sum_list (map Dengue_Cases (group_of df k)),
               sum_Dengue_Deaths = sum_list (map Dengue_Deaths (group_of df k))\<rparr>)
       (group_keys df)"

datatype chart = Cases_chart | Deaths_chart

text \<open>
  What the main part of the page shows: the notice of line 137, the reminder of line 99,
  or the bar charts drawn from \<^verbatim>\<open>yearly_grouped\<close>.
\<close>

datatype main_content =
  Showing_all_data
| Please_select_what_to_display
| Charts "group_row list" "chart list"

definition main_page ::
  "dataframe \<Rightarrow> string list \<Rightarrow> int list \<Rightarrow> string list \<Rightarrow> string \<Rightarrow> main_content" where
  "main_page df regions years months view_option =
     (if regions \<noteq> [] \<and> years \<noteq> [] then
        (if view_option = ''-- Select --'' then Please_select_what_to_display
         else
           Charts (yearly_grouped (filtered_df df regions years months))
             ((if view_option \<in> set [''Dengue Cases'', ''Both''] then [Cases_chart] else []) @
              (if view_option \<in> set [''Dengue Deaths'', ''Both''] then [Deaths_chart] else [])))
      else Showing_all_data)"

subsection \<open>The table (line 142)\<close>

text \<open>
  \<^verbatim>\<open>sort_values(by=["Year", "Month_Num"])\<close>. With more than one column pandas sorts
  by a lexicographic index sort: ascending by the first column, then by the second, a
  missing value after every present one, rows with the same keys in the order they had.
\<close>

definition Month_Num_le :: "int option \<Rightarrow> int option \<Rightarrow> bool" where
  "Month_Num_le a b =
     (case b of
        None \<Rightarrow> True
      | Some n \<Rightarrow> (case a of None \<Rightarrow> False | Some m \<Rightarrow> m \<le> n))"

definition sort_le :: "row \<Rightarrow> row \<Rightarrow> bool" where
  "sort_le a b =
     (Year a < Year b \<or> (Year a = Year b \<and> Month_Num_le (Month_Num a) (Month_Num b)))"

fun insert_row :: "row \<Rightarrow> dataframe \<Rightarrow> dataframe" where
  "insert_row x [] = [x]"
| "insert_row x (y # ys) = (if sort_le x y then x # y # ys else y # insert_row x ys)"

fun sort_values :: "dataframe \<Rightarrow> dataframe" where
  "sort_values [] = []"
| "sort_values (x # xs) = insert_row x (sort_values xs)"

definition sorted_df :: "dataframe \<Rightarrow> csv_row list" where
  "sorted_df df = map drop_Month_Num (sort_values df)"

subsection \<open>One run of the script\<close>

record page =
  total_cases :: int64
  total_deaths :: int64
  sidebar :: "sidebar_message option"
  main :: main_content
  table :: "csv_row list"

text \<open>
  The script after a successful \<^verbatim>\<open>read_csv\<close>, in the order of its lines: the
  \<^verbatim>\<open>Month_Num\<close> column (28), the totals (33, 34), the handler (72 to 89), which
  rebinds \<open>df\<close>, and then the main part (93 to 137) and the table (142), both reading
  \<open>df\<close> as the handler left it. An exception in the handler ends the run.
\<close>

definition script :: "csv_row list \<Rightarrow> inputs \<Rightarrow> py_error + page" where
  "script csv inp =
     (let df = map with_Month_Num csv;
          total_cases = sum_list (map Dengue_Cases df);
          total_deaths = sum_list (map Dengue_Deaths df);
          handled =
            (if add_data_clicked inp
             then map_sum id (\<lambda>(df', msg). (df', Some msg))
                    (add_data df (new_region inp) (new_year inp) (new_month inp)
                       (new_cases inp) (new_deaths inp))
             else Inr (df, None))
      in case handled of
           Inl e \<Rightarrow> Inl e
         | Inr (df, message) \<Rightarrow>
             Inr \<lparr>total_cases = total_cases, total_deaths = total_deaths,
                  sidebar = message,
                  main = main_page df (selected_regions inp) (selected_years inp)
                           (selected_months inp) (data_view_option inp),
                  table = sorted_df df\<rparr>)"

text \<open>
  Lines 13 to 17: when \<^verbatim>\<open>read_csv\<close> raises, the error is shown and \<^verbatim>\<open>st.stop()\<close>
  ends the run before anything else is drawn.
\<close>

datatype run = Error_loading_data string | Crashed py_error | Shown page

definition dashboard :: "string + csv_row list \<Rightarrow> inputs \<Rightarrow> run" where
  "dashboard loaded inp =
     (case loaded of
        Inl e \<Rightarrow> Error_loading_data e
      | Inr csv \<Rightarrow> (case script csv inp of Inl e \<Rightarrow> Crashed e | Inr p \<Rightarrow> Shown p))"

subsection \<open>What the widgets can deliver\<close>

text \<open>
  The selections that the widgets of one run can hold for a loaded table \<open>df\<close>: every
  multiselect a list of its options, every selectbox and the radio one of its options, the
  number inputs a value from their minimum 0 on.
\<close>

definition deliverable :: "dataframe \<Rightarrow> inputs \<Rightarrow> bool" where
  "deliverable df inp =
     (set (selected_regions inp) \<subseteq> set (region_options df) \<and>
      set (selected_years inp) \<subseteq> set (year_options df) \<and>
      set (selected_months inp) \<subseteq> set month_names \<and>
      data_view_option inp \<in> set data_view_options \<and>
      new_region inp \<in> set (regions_with_empty df) \<and>
      new_year inp \<in> set years_with_empty \<and>
      new_month inp \<in> set months_with_empty \<and>
      0 \<le> sint (new_cases inp) \<and> 0 \<le> sint (new_deaths inp))"

subsection \<open>A small table and a selection, for the concrete runs below\<close>

definition example_csv :: "csv_row list" where
  "example_csv =
     [\<lparr>Region = ''A'', Year = 2016, Month = ''March'', Dengue_Cases = 10, Dengue_Deaths = 1\<rparr>,
      \<lparr>Region = ''B'', Year = 2016, Month = ''January'', Dengue_Cases = 20, Dengue_Deaths = 2\<rparr>,
      \<lparr>Region = ''A'', Year = 2015, Month = ''May'', Dengue_Cases = 3, Dengue_Deaths = 0\<rparr>]"

definition example_inputs :: inputs where
  "example_inputs =
     \<lparr>selected_regions = [''A''], selected_years = [2016], selected_months = [],
      data_view_option = ''Dengue Cases'',
      new_region = ''A'', new_year = ''2016'', new_month = ''January'',
      new_cases = 5, new_deaths = 0, add_data_clicked = True\<rparr>"

subsection \<open>Notions used in the proofs\<close>

text \<open>A decimal digit character, and the value of a string of digits read left to right.\<close>

definition is_digit :: "char \<Rightarrow> bool" where
  "is_digit c = (\<exists>d<10. c = digit_char d)"

definition digits_value :: "nat \<Rightarrow> string \<Rightarrow> nat" where
  "digits_value acc ds = foldl (\<lambda>a c. 10 * a + the (digit_val c)) acc ds"

section \<open>Properties\<close>

subsection \<open>\<^verbatim>\<open>int(str(y))\<close> gives \<open>y\<close> back\<close>

lemma of_char_digit_char: "d < 10 \<Longrightarrow> (of_char (digit_char d) :: nat) = 48 + d"
  by (simp add: digit_char_def)

lemma digit_val_digit_char: "d < 10 \<Longrightarrow> digit_val (digit_char d) = Some d"
  by (simp add: digit_val_def of_char_digit_char)

lemma digit_char_not_space: "d < 10 \<Longrightarrow> \<not> is_space (digit_char d)"
  by (simp add: is_space_def of_char_digit_char)

lemma digit_char_not_sign:
  assumes "d < 10"
  shows "digit_char d \<noteq> CHR ''_''" "digit_char d \<noteq> CHR ''-''" "digit_char d \<noteq> CHR ''+''"
proof -
  have "(of_char (digit_char d) :: nat) \<noteq> of_char CHR ''_''"
       "(of_char (digit_char d) :: nat) \<noteq> of_char CHR ''-''"
       "(of_char (digit_char d) :: nat) \<noteq> of_char CHR ''+''"
    using assms by (simp_all add: of_char_digit_char)
  then show "digit_char d \<noteq> CHR ''_''" "digit_char d \<noteq> CHR ''-''" "digit_char d \<noteq> CHR ''+''"
    by auto
qed

lemma str_nat_digits: "str_nat n \<noteq> [] \<and> (\<forall>c\<in>set (str_nat n). is_digit c)"
proof (induction n rule: str_nat.induct)
  case (1 n)
  show ?case
  proof (cases "n < 10")
    case True
    then show ?thesis by (subst (1 2) str_nat.simps) (auto simp: is_digit_def)
  next
    case False
    have "n mod 10 < 10" by simp
    then have "is_digit (digit_char (n mod 10))" unfolding is_digit_def by blast
    with False 1 show ?thesis by (subst (1 2) str_nat.simps) auto
  qed
qed

lemma int_digits_of_digits:
  "\<forall>c\<in>set ds. is_digit c \<Longrightarrow>
   int_digits acc b ds = (if ds = [] \<and> \<not> b then None else Some (digits_value acc ds))"
proof (induction ds arbitrary: acc b)
  case Nil
  then show ?case by (simp add: digits_value_def)
next
  case (Cons c cs)
  from Cons.prems obtain d where d: "d < 10" "c = digit_char d"
    by (auto simp: is_digit_def)
  have "int_digits (10 * acc + d) True cs = Some (digits_value (10 * acc + d) cs)"
    using Cons.IH [of "10 * acc + d" True] Cons.prems by simp
  then show ?case
    using d by (simp add: digit_char_not_sign digit_val_digit_char digits_value_def)
qed

lemma digits_value_str_nat: "digits_value 0 (str_nat n) = n"
proof (induction n rule: str_nat.induct)
  case (1 n)
  show ?case
  proof (cases "n < 10")
    case True
    then show ?thesis
      by (subst str_nat.simps) (simp add: digits_value_def digit_val_digit_char)
  next
    case False
    with 1 have "digits_value 0 (str_nat (n div 10)) = n div 10" by simp
    with False show ?thesis
      by (subst str_nat.simps) (simp add: digits_value_def digit_val_digit_char)
  qed
qed

lemma int_digits_str_nat: "int_digits 0 False (str_nat n) = Some n"
  using str_nat_digits [of n] by (simp add: int_digits_of_digits digits_value_str_nat)

lemma strip_no_space:
  assumes "s \<noteq> []" "\<not> is_space (hd s)" "\<not> is_space (last s)"
  shows "strip s = s"
proof -
  from assms have a: "dropWhile is_space s = s" by (cases s) auto
  from assms have "dropWhile is_space (rev s) = rev s"
    by (cases "rev s") (auto simp: last_rev hd_rev)
  with a show ?thesis by (simp add: strip_def)
qed

lemma is_digit_not_space: "is_digit c \<Longrightarrow> \<not> is_space c"
  by (auto simp: is_digit_def digit_char_not_space)

lemma strip_str_nat: "strip (str_nat n) = str_nat n"
  using str_nat_digits [of n] by (intro strip_no_space) (auto simp: is_digit_not_space)

lemma strip_minus_str_nat: "strip (CHR ''-'' # str_nat n) = CHR ''-'' # str_nat n"
proof (rule strip_no_space)
  show "CHR ''-'' # str_nat n \<noteq> []" by simp
  show "\<not> is_space (hd (CHR ''-'' # str_nat n))" by (simp add: is_space_def)
  have "last (str_nat n) \<in> set (str_nat n)" using str_nat_digits [of n] by simp
  then have "\<not> is_space (last (str_nat n))"
    using str_nat_digits [of n] is_digit_not_space by blast
  then show "\<not> is_space (last (CHR ''-'' # str_nat n))"
    using str_nat_digits [of n] by simp
qed

lemma py_int_str_int: "py_int (str_int i) = Some i"
proof (cases "i < 0")
  case True
  then show ?thesis
    by (simp add: py_int_def str_int_def strip_minus_str_nat int_digits_str_nat)
next
  case False
  obtain c cs where s: "str_nat (nat i) = c # cs"
    using str_nat_digits [of "nat i"] by (cases "str_nat (nat i)") auto
  then have "is_digit c" using str_nat_digits [of "nat i"] by simp
  then have "c \<noteq> CHR ''-''" "c \<noteq> CHR ''+''"
    by (auto simp: is_digit_def digit_char_not_sign)
  moreover have "int_digits 0 False (c # cs) = Some (nat i)"
    using int_digits_str_nat [of "nat i"] s by simp
  moreover have "strip (c # cs) = c # cs" using strip_str_nat [of "nat i"] s by simp
  ultimately show ?thesis using False s
    by (simp add: py_int_def str_int_def)
qed

lemma str_int_not_placeholder: "str_int i \<noteq> ''-- Select Year --''"
proof
  assume "str_int i = ''-- Select Year --''"
  then have "py_int (str_int i) = py_int ''-- Select Year --''" by simp
  moreover have "py_int ''-- Select Year --'' = None" by code_simp
  ultimately show False by (simp add: py_int_str_int)
qed

subsection \<open>The sort of the table\<close>

lemma mset_insert_row: "mset (insert_row x xs) = add_mset x (mset xs)"
  by (induction xs) auto

lemma mset_sort_values: "mset (sort_values xs) = mset xs"
  by (induction xs) (auto simp: mset_insert_row)

lemma length_sort_values: "length (sort_values xs) = length xs"
  using mset_sort_values [of xs] by (metis size_mset)

lemma Month_Num_le_refl: "Month_Num_le a a"
  by (cases a) (auto simp: Month_Num_le_def)

lemma Month_Num_le_total: "Month_Num_le a b \<or> Month_Num_le b a"
  by (cases a; cases b) (auto simp: Month_Num_le_def)

lemma Month_Num_le_trans: "Month_Num_le a b \<Longrightarrow> Month_Num_le b c \<Longrightarrow> Month_Num_le a c"
  by (cases a; cases b; cases c) (auto simp: Month_Num_le_def)

lemma sort_le_same_key: "Year a = Year b \<Longrightarrow> Month_Num a = Month_Num b \<Longrightarrow> sort_le a b"
  by (simp add: sort_le_def Month_Num_le_refl)

lemma sort_le_total: "sort_le a b \<or> sort_le b a"
  using Month_Num_le_total [of "Month_Num a" "Month_Num b"] by (auto simp: sort_le_def)

lemma sort_le_trans: "sort_le a b \<Longrightarrow> sort_le b c \<Longrightarrow> sort_le a c"
  using Month_Num_le_trans [of "Month_Num a" "Month_Num b" "Month_Num c"]
  by (auto simp: sort_le_def)

lemma set_insert_row: "set (insert_row x xs) = insert x (set xs)"
  by (induction xs) auto

lemma sorted_insert_row:
  "sorted_wrt sort_le xs \<Longrightarrow> sorted_wrt sort_le (insert_row x xs)"
proof (induction xs)
  case Nil
  then show ?case by simp
next
  case (Cons y ys)
  show ?case
  proof (cases "sort_le x y")
    case True
    then have "\<forall>z\<in>set ys. sort_le x z" using Cons.prems sort_le_trans by auto
    with True Cons.prems show ?thesis by simp
  next
    case False
    then have "sort_le y x" using sort_le_total by blast
    with False Cons show ?thesis by (auto simp: set_insert_row)
  qed
qed

lemma sorted_sort_values: "sorted_wrt sort_le (sort_values xs)"
  by (induction xs) (auto simp: sorted_insert_row)

lemma filter_key_insert_row:
  "filter (\<lambda>r. (Year r, Month_Num r) = k) (insert_row x xs) =
     (if (Year x, Month_Num x) = k then x # filter (\<lambda>r. (Year r, Month_Num r) = k) xs
      else filter (\<lambda>r. (Year r, Month_Num r) = k) xs)"
proof (induction xs)
  case Nil
  then show ?case by simp
next
  case (Cons y ys)
  show ?case
  proof (cases "sort_le x y")
    case True
    then show ?thesis by simp
  next
    case False
    then have "(Year y, Month_Num y) \<noteq> (Year x, Month_Num x)"
      using sort_le_same_key [of x y] by auto
    with False Cons show ?thesis by auto
  qed
qed

lemma filter_key_sort_values:
  "filter (\<lambda>r. (Year r, Month_Num r) = k) (sort_values xs) =
   filter (\<lambda>r. (Year r, Month_Num r) = k) xs"
  by (induction xs) (auto simp: filter_key_insert_row)

subsection \<open>Sums over the groups\<close>

lemma sum_over_groups:
  fixes f :: "row \<Rightarrow> int64"
  shows "finite K \<Longrightarrow> group_key ` set df \<subseteq> K \<Longrightarrow>
    (\<Sum>k\<in>K. sum_list (map f (group_of df k))) = sum_list (map f df)"
proof (induction df)
  case Nil
  then show ?case by (simp add: group_of_def)
next
  case (Cons r rs)
  have "(\<Sum>k\<in>K. sum_list (map f (group_of (r # rs) k))) =
        (\<Sum>k\<in>K. (if k = group_key r then f r else 0) + sum_list (map f (group_of rs k)))"
    by (intro sum.cong) (auto simp: group_of_def)
  also have "\<dots> = (\<Sum>k\<in>K. if k = group_key r then f r else 0) +
                   (\<Sum>k\<in>K. sum_list (map f (group_of rs k)))"
    by (simp add: sum.distrib)
  also have "(\<Sum>k\<in>K. if k = group_key r then f r else 0) = f r"
    using Cons.prems by (simp add: sum.delta)
  also have "(\<Sum>k\<in>K. sum_list (map f (group_of rs k))) = sum_list (map f rs)"
    using Cons by simp
  finally show ?case by simp
qed

lemma sum_list_group_keys:
  fixes g :: "int \<times> string \<Rightarrow> int64"
  shows "sum_list (map g (group_keys df)) = (\<Sum>k\<in>group_key ` set df. g k)"
proof -
  have "distinct (group_keys df)" by (simp add: group_keys_def)
  then have "sum_list (map g (group_keys df)) = sum g (set (group_keys df))"
    by (rule sum_list_distinct_conv_sum_set)
  then show ?thesis by (simp add: group_keys_def)
qed

lemma sum_yearly_grouped_cases:
  "sum_list (map sum_Dengue_Cases (yearly_grouped df)) = sum_list (map Dengue_Cases df)"
proof -
  have "sum_list (map sum_Dengue_Cases (yearly_grouped df)) =
        sum_list (map (\<lambda>k. sum_list (map Dengue_Cases (group_of df k))) (group_keys df))"
    by (simp add: yearly_grouped_def comp_def)
  also have "\<dots> = (\<Sum>k\<in>group_key ` set df. sum_list (map Dengue_Cases (group_of df k)))"
    by (rule sum_list_group_keys)
  also have "\<dots> = sum_list (map Dengue_Cases df)"
    by (rule sum_over_groups) simp_all
  finally show ?thesis .
qed

lemma sum_yearly_grouped_deaths:
  "sum_list (map sum_Dengue_Deaths (yearly_grouped df)) = sum_list (map Dengue_Deaths df)"
proof -
  have "sum_list (map sum_Dengue_Deaths (yearly_grouped df)) =
        sum_list (map (\<lambda>k. sum_list (map Dengue_Deaths (group_of df k))) (group_keys df))"
    by (simp add: yearly_grouped_def comp_def)
  also have "\<dots> = (\<Sum>k\<in>group_key ` set df. sum_list (map Dengue_Deaths (group_of df k)))"
    by (rule sum_list_group_keys)
  also have "\<dots> = sum_list (map Dengue_Deaths df)"
    by (rule sum_over_groups) simp_all
  finally show ?thesis .
qed

subsection \<open>The handler, the filter and the run\<close>

lemma str_int_2016: "str_int 2016 = ''2016''"
  by (simp add: str_int_def str_nat.simps digit_char_def char_of_eq_iff)

lemma in_year_texts: "2010 \<le> y \<Longrightarrow> y \<le> 2030 \<Longrightarrow> str_int y \<in> set year_texts"
  unfolding year_texts_def set_map set_upto by simp

lemma text_2016_in_year_texts: "''2016'' \<in> set year_texts"
  using in_year_texts [of 2016] by (simp add: str_int_2016)

lemma January_in_month_names: "''January'' \<in> set month_names"
  by (simp add: month_names_def month_mapping_items_def)

lemma example_deliverable: "deliverable (map with_Month_Num example_csv) example_inputs"
proof -
  have y: "new_year example_inputs \<in> set years_with_empty"
    using in_year_texts [of 2016]
    by (simp add: years_with_empty_def str_int_2016 example_inputs_def)
  have rest:
    "set (selected_regions example_inputs) \<subseteq> set (region_options (map with_Month_Num example_csv)) \<and>
     set (selected_years example_inputs) \<subseteq> set (year_options (map with_Month_Num example_csv)) \<and>
     set (selected_months example_inputs) \<subseteq> set month_names \<and>
     data_view_option example_inputs \<in> set data_view_options \<and>
     new_region example_inputs \<in> set (regions_with_empty (map with_Month_Num example_csv)) \<and>
     new_month example_inputs \<in> set months_with_empty \<and>
     0 \<le> sint (new_cases example_inputs) \<and> 0 \<le> sint (new_deaths example_inputs)"
    by code_simp
  from y rest show ?thesis unfolding deliverable_def by blast
qed

lemma year_texts_cases:
  "year \<in> set year_texts \<Longrightarrow> \<exists>y. 2010 \<le> y \<and> y \<le> 2030 \<and> year = str_int y"
proof -
  assume "year \<in> set year_texts"
  then have "year \<in> str_int ` {2010..2030}"
    unfolding year_texts_def set_map set_upto .
  then obtain y where "y \<in> {2010..2030}" and "year = str_int y" by (rule imageE)
  then show ?thesis by auto
qed

lemma month_names_cases:
  "month \<in> set month_names \<Longrightarrow>
     \<exists>m. month_mapping month = Some m \<and> (month, m) \<in> set month_mapping_items \<and>
         1 \<le> m \<and> m \<le> 12"
  by (auto simp: month_names_def month_mapping_def month_mapping_items_def)

lemma month_names_not_placeholder: "month \<in> set month_names \<Longrightarrow> month \<noteq> ''-- Select Month --''"
  by (auto simp: month_names_def month_mapping_items_def)

lemma add_data_accepts:
  assumes "region \<noteq> ''-- Select Region --''" and "month \<noteq> ''-- Select Month --''"
    and "py_int year = Some y"
  shows "add_data df region year month cases deaths =
           Inr (df @ [new_row region y month cases deaths], New_data_added)"
proof -
  have "py_int ''-- Select Year --'' = None" by code_simp
  with assms(3) have "year \<noteq> ''-- Select Year --''" by auto
  with assms show ?thesis by (simp add: add_data_def)
qed

lemma add_data_success:
  assumes "add_data df region year month cases deaths = Inr (df', New_data_added)"
  shows "\<exists>y. py_int year = Some y \<and> df' = df @ [new_row region y month cases deaths]"
  using assms by (auto simp: add_data_def split: if_splits option.splits)

lemma add_data_valid:
  assumes "region \<noteq> ''-- Select Region --''" and "year \<in> set year_texts"
    and "month \<in> set month_names"
  shows "\<exists>y m. 2010 \<le> y \<and> y \<le> 2030 \<and> str_int y = year \<and> py_int year = Some y \<and>
           month_mapping month = Some m \<and> (month, m) \<in> set month_mapping_items \<and>
           add_data df region year month cases deaths =
             Inr (df @ [new_row region y month cases deaths], New_data_added)"
proof -
  from year_texts_cases [OF assms(2)] obtain y where
    y: "2010 \<le> y" "y \<le> 2030" "year = str_int y" by blast
  then have p: "py_int year = Some y" by (simp add: py_int_str_int)
  from month_names_cases [OF assms(3)] obtain m where
    m: "month_mapping month = Some m" "(month, m) \<in> set month_mapping_items" by blast
  have n: "month \<noteq> ''-- Select Month --''"
    by (rule month_names_not_placeholder [OF assms(3)])
  have "add_data df region year month cases deaths =
             Inr (df @ [new_row region y month cases deaths], New_data_added)"
    by (rule add_data_accepts [OF assms(1) n p])
  with y p m show ?thesis by blast
qed

lemma filtered_df_append:
  "filtered_df (df @ df2) regions years months =
     filtered_df df regions years months @ filtered_df df2 regions years months"
  by (simp add: filtered_df_def Let_def)

lemma filtered_df_single:
  "filtered_df [r] regions years months =
     (if Region r \<in> set regions \<and> Year r \<in> set years \<and> (months = [] \<or> Month r \<in> set months)
      then [r] else [])"
  by (simp add: filtered_df_def Let_def)

lemma script_clicked:
  assumes "add_data_clicked inp"
    and "add_data (map with_Month_Num csv) (new_region inp) (new_year inp) (new_month inp)
           (new_cases inp) (new_deaths inp) = Inr (df', msg)"
  shows "script csv inp =
     Inr \<lparr>total_cases = sum_list (map Dengue_Cases (map with_Month_Num csv)),
          total_deaths = sum_list (map Dengue_Deaths (map with_Month_Num csv)),
          sidebar = Some msg,
          main = main_page df' (selected_regions inp) (selected_years inp)
                   (selected_months inp) (data_view_option inp),
          table = sorted_df df'\<rparr>"
  using assms by (simp add: script_def Let_def)

lemma script_not_clicked:
  assumes "\<not> add_data_clicked inp"
  shows "script csv inp =
     Inr \<lparr>total_cases = sum_list (map Dengue_Cases (map with_Month_Num csv)),
          total_deaths = sum_list (map Dengue_Deaths (map with_Month_Num csv)),
          sidebar = None,
          main = main_page (map with_Month_Num csv) (selected_regions inp) (selected_years inp)
                   (selected_months inp) (data_view_option inp),
          table = sorted_df (map with_Month_Num csv)\<rparr>"
  using assms by (simp add: script_def Let_def)

lemma script_totals:
  assumes "script csv inp = Inr p"
  shows "total_cases p = sum_list (map Dengue_Cases csv) \<and>
         total_deaths p = sum_list (map Dengue_Deaths csv)"
proof -
  have c: "map Dengue_Cases (map with_Month_Num csv) = map Dengue_Cases csv"
    by (simp add: with_Month_Num_def)
  have d: "map Dengue_Deaths (map with_Month_Num csv) = map Dengue_Deaths csv"
    by (simp add: with_Month_Num_def)
  from assms show ?thesis
    unfolding script_def Let_def c d
    by (auto split: sum.splits prod.splits)
qed

lemma add_data_total:
  assumes "year \<in> set years_with_empty"
  shows "\<exists>df' msg. add_data df region year month cases deaths = Inr (df', msg)"
proof (cases "year = ''-- Select Year --''")
  case True
  then show ?thesis by (simp add: add_data_def)
next
  case False
  with assms have "year \<in> set year_texts" by (simp add: years_with_empty_def)
  from year_texts_cases [OF this] obtain y where "year = str_int y" by blast
  then have "py_int year = Some y" by (simp add: py_int_str_int)
  then show ?thesis by (simp add: add_data_def)
qed

lemma script_completes:
  assumes "new_year inp \<in> set years_with_empty"
  shows "\<exists>p. script csv inp = Inr p"
proof (cases "add_data_clicked inp")
  case True
  from add_data_total [OF assms] obtain df' msg where
    "add_data (map with_Month_Num csv) (new_region inp) (new_year inp) (new_month inp)
       (new_cases inp) (new_deaths inp) = Inr (df', msg)" by blast
  from script_clicked [OF True this] show ?thesis by blast
next
  case False
  from script_not_clicked [OF False] show ?thesis by blast
qed





section \<open>The claims\<close>

subsection \<open>C1: the view shown in the run of a successful ``Add Data''\<close>

text \<open>
  C1 as stated fails. The handler rebinds \<^verbatim>\<open>df\<close> on line 88, and lines 94 to 105 read
  \<^verbatim>\<open>df\<close> after it. On the table \<open>example_csv\<close>, with region A and year 2016 selected
  (a selection the widgets can deliver), adding the row (A, 2016, January, 5 cases) makes
  the group (2016, A) of the same run show 15 cases, while the table before the append
  gives 10.
\<close>

theorem added_row_in_view_of_same_run:
  "deliverable (map with_Month_Num example_csv) example_inputs \<and>
   add_data_clicked example_inputs \<and>
   selected_regions example_inputs = [''A''] \<and>
   selected_years example_inputs = [2016] \<and>
   add_data (map with_Month_Num example_csv) ''A'' ''2016'' ''January'' 5 0 =
     Inr (map with_Month_Num example_csv @ [new_row ''A'' 2016 ''January'' 5 0], New_data_added) \<and>
   map_sum id main (script example_csv example_inputs) =
     Inr (Charts [\<lparr>group_Year = 2016, group_Region = ''A'',
                   sum_Dengue_Cases = 15, sum_Dengue_Deaths = 1\<rparr>] [Cases_chart]) \<and>
   main_page (map with_Month_Num example_csv) [''A''] [2016] [] ''Dengue Cases'' =
     Charts [\<lparr>group_Year = 2016, group_Region = ''A'',
              sum_Dengue_Cases = 10, sum_Dengue_Deaths = 1\<rparr>] [Cases_chart] \<and>
   map_sum id main (script example_csv example_inputs) \<noteq>
     Inr (main_page (map with_Month_Num example_csv) [''A''] [2016] [] ''Dengue Cases'')"
proof -
  have "add_data_clicked example_inputs \<and>
   selected_regions example_inputs = [''A''] \<and>
   selected_years example_inputs = [2016] \<and>
   add_data (map with_Month_Num example_csv) ''A'' ''2016'' ''January'' 5 0 =
     Inr (map with_Month_Num example_csv @ [new_row ''A'' 2016 ''January'' 5 0], New_data_added) \<and>
   map_sum id main (script example_csv example_inputs) =
     Inr (Charts [\<lparr>group_Year = 2016, group_Region = ''A'',
                   sum_Dengue_Cases = 15, sum_Dengue_Deaths = 1\<rparr>] [Cases_chart]) \<and>
   main_page (map with_Month_Num example_csv) [''A''] [2016] [] ''Dengue Cases'' =
     Charts [\<lparr>group_Year = 2016, group_Region = ''A'',
              sum_Dengue_Cases = 10, sum_Dengue_Deaths = 1\<rparr>] [Cases_chart] \<and>
   map_sum id main (script example_csv example_inputs) \<noteq>
     Inr (main_page (map with_Month_Num example_csv) [''A''] [2016] [] ''Dengue Cases'')"
    by code_simp
  with example_deliverable show ?thesis by (rule conjI)
qed

text \<open>
  C1, amended: in a run whose ``Add Data'' succeeds, the main part of the page is computed
  from the table with the new row appended (the old rows first, the new row last). It
  equals the main part computed from the table before the append whenever the new row does
  not pass the filter: its region is not selected, or its year is not selected, or months
  are selected and its month is not among them.
\<close>

theorem view_after_add_data:
  assumes "add_data_clicked inp"
    and "add_data (map with_Month_Num csv) (new_region inp) (new_year inp) (new_month inp)
           (new_cases inp) (new_deaths inp) = Inr (df', New_data_added)"
  shows "\<exists>y p. py_int (new_year inp) = Some y \<and>
           df' = map with_Month_Num csv @
                   [new_row (new_region inp) y (new_month inp) (new_cases inp) (new_deaths inp)] \<and>
           script csv inp = Inr p \<and>
           main p = main_page df' (selected_regions inp) (selected_years inp)
                      (selected_months inp) (data_view_option inp) \<and>
           (new_region inp \<notin> set (selected_regions inp) \<or> y \<notin> set (selected_years inp) \<or>
              (selected_months inp \<noteq> [] \<and> new_month inp \<notin> set (selected_months inp))
            \<longrightarrow> main p = main_page (map with_Month_Num csv) (selected_regions inp)
                           (selected_years inp) (selected_months inp) (data_view_option inp))"
proof -
  let ?df = "map with_Month_Num csv"
  from add_data_success [OF assms(2)] obtain y where
    y: "py_int (new_year inp) = Some y" and
    df': "df' = ?df @ [new_row (new_region inp) y (new_month inp) (new_cases inp) (new_deaths inp)]"
    by blast
  let ?r = "new_row (new_region inp) y (new_month inp) (new_cases inp) (new_deaths inp)"
  let ?p = "\<lparr>total_cases = sum_list (map Dengue_Cases ?df),
          total_deaths = sum_list (map Dengue_Deaths ?df),
          sidebar = Some New_data_added,
          main = main_page df' (selected_regions inp) (selected_years inp)
                   (selected_months inp) (data_view_option inp),
          table = sorted_df df'\<rparr>"
  have p: "script csv inp = Inr ?p" by (rule script_clicked [OF assms])
  have m: "main ?p = main_page df' (selected_regions inp) (selected_years inp)
                   (selected_months inp) (data_view_option inp)" by simp
  have e: "main ?p = main_page ?df (selected_regions inp) (selected_years inp)
                   (selected_months inp) (data_view_option inp)"
    if "new_region inp \<notin> set (selected_regions inp) \<or> y \<notin> set (selected_years inp) \<or>
              (selected_months inp \<noteq> [] \<and> new_month inp \<notin> set (selected_months inp))"
  proof -
    from that have "filtered_df [?r] (selected_regions inp) (selected_years inp)
        (selected_months inp) = []"
      by (auto simp: filtered_df_single new_row_def)
    then have "filtered_df df' (selected_regions inp) (selected_years inp) (selected_months inp)
       = filtered_df ?df (selected_regions inp) (selected_years inp) (selected_months inp)"
      by (simp add: df' filtered_df_append)
    then show ?thesis by (simp add: main_page_def)
  qed
  from y df' p m e show ?thesis by blast
qed

text \<open>The amended C1 at a run that adds a row of region B while only region A is selected.\<close>

theorem view_after_add_data_witness:
  "add_data_clicked (example_inputs\<lparr>new_region := ''B''\<rparr>) \<and>
   add_data (map with_Month_Num example_csv) ''B'' ''2016'' ''January'' 5 0 =
     Inr (map with_Month_Num example_csv @ [new_row ''B'' 2016 ''January'' 5 0], New_data_added) \<and>
   map_sum id main (script example_csv (example_inputs\<lparr>new_region := ''B''\<rparr>)) =
     Inr (main_page (map with_Month_Num example_csv) [''A''] [2016] [] ''Dengue Cases'')"
proof -
  let ?inp = "example_inputs\<lparr>new_region := ''B''\<rparr>"
  let ?df = "map with_Month_Num example_csv"
  have h1: "add_data_clicked ?inp" by (simp add: example_inputs_def)
  have a: "add_data ?df ''B'' ''2016'' ''January'' 5 0 =
     Inr (?df @ [new_row ''B'' 2016 ''January'' 5 0], New_data_added)" by code_simp
  then have h2: "add_data ?df (new_region ?inp) (new_year ?inp) (new_month ?inp)
      (new_cases ?inp) (new_deaths ?inp) =
     Inr (?df @ [new_row ''B'' 2016 ''January'' 5 0], New_data_added)"
    by (simp add: example_inputs_def)
  from view_after_add_data [OF h1 h2] obtain y p where
    p: "script example_csv ?inp = Inr p" and
    e: "new_region ?inp \<notin> set (selected_regions ?inp) \<or> y \<notin> set (selected_years ?inp) \<or>
          (selected_months ?inp \<noteq> [] \<and> new_month ?inp \<notin> set (selected_months ?inp))
        \<longrightarrow> main p = main_page ?df (selected_regions ?inp) (selected_years ?inp)
              (selected_months ?inp) (data_view_option ?inp)"
    by blast
  have "new_region ?inp \<notin> set (selected_regions ?inp)" by (simp add: example_inputs_def)
  with e have "main p = main_page ?df (selected_regions ?inp) (selected_years ?inp)
              (selected_months ?inp) (data_view_option ?inp)" by blast
  then have "main p = main_page ?df [''A''] [2016] [] ''Dengue Cases''"
    by (simp add: example_inputs_def)
  with p h1 a show ?thesis by simp
qed


subsection \<open>C2: the sort of the table is stable\<close>

text \<open>
  C2: for every table and every key \<open>k\<close> = (\<^verbatim>\<open>Year\<close>, \<^verbatim>\<open>Month_Num\<close>), the rows
  with key \<open>k\<close> stand in the sorted table in the order they have in the table itself
  (and the result is in ascending order of the keys). \<open>sorted_df\<close> shows these rows
  without their \<^verbatim>\<open>Month_Num\<close>, in the same order.
\<close>

theorem sort_values_stable:
  "filter (\<lambda>r. (Year r, Month_Num r) = k) (sort_values df) =
     filter (\<lambda>r. (Year r, Month_Num r) = k) df \<and>
   sorted_wrt sort_le (sort_values df)"
  by (simp add: filter_key_sort_values sorted_sort_values)

text \<open>C2 on three rows, two of them with the key (2016, 5): A stays before C.\<close>

theorem sort_values_stable_witness:
  "sort_values (map with_Month_Num
      [\<lparr>Region = ''A'', Year = 2016, Month = ''May'', Dengue_Cases = 1, Dengue_Deaths = 0\<rparr>,
       \<lparr>Region = ''B'', Year = 2015, Month = ''May'', Dengue_Cases = 2, Dengue_Deaths = 0\<rparr>,
       \<lparr>Region = ''C'', Year = 2016, Month = ''May'', Dengue_Cases = 3, Dengue_Deaths = 0\<rparr>]) =
    map with_Month_Num
      [\<lparr>Region = ''B'', Year = 2015, Month = ''May'', Dengue_Cases = 2, Dengue_Deaths = 0\<rparr>,
       \<lparr>Region = ''A'', Year = 2016, Month = ''May'', Dengue_Cases = 1, Dengue_Deaths = 0\<rparr>,
       \<lparr>Region = ''C'', Year = 2016, Month = ''May'', Dengue_Cases = 3, Dengue_Deaths = 0\<rparr>] \<and>
   filter (\<lambda>r. (Year r, Month_Num r) = (2016, Some 5)) (sort_values (map with_Month_Num
      [\<lparr>Region = ''A'', Year = 2016, Month = ''May'', Dengue_Cases = 1, Dengue_Deaths = 0\<rparr>,
       \<lparr>Region = ''B'', Year = 2015, Month = ''May'', Dengue_Cases = 2, Dengue_Deaths = 0\<rparr>,
       \<lparr>Region = ''C'', Year = 2016, Month = ''May'', Dengue_Cases = 3, Dengue_Deaths = 0\<rparr>])) =
    map with_Month_Num
      [\<lparr>Region = ''A'', Year = 2016, Month = ''May'', Dengue_Cases = 1, Dengue_Deaths = 0\<rparr>,
       \<lparr>Region = ''C'', Year = 2016, Month = ''May'', Dengue_Cases = 3, Dengue_Deaths = 0\<rparr>]"
proof -
  let ?df = "map with_Month_Num
      [\<lparr>Region = ''A'', Year = 2016, Month = ''May'', Dengue_Cases = 1, Dengue_Deaths = 0\<rparr>,
       \<lparr>Region = ''B'', Year = 2015, Month = ''May'', Dengue_Cases = 2, Dengue_Deaths = 0\<rparr>,
       \<lparr>Region = ''C'', Year = 2016, Month = ''May'', Dengue_Cases = 3, Dengue_Deaths = 0\<rparr>]"
  have s: "sort_values ?df = map with_Month_Num
      [\<lparr>Region = ''B'', Year = 2015, Month = ''May'', Dengue_Cases = 2, Dengue_Deaths = 0\<rparr>,
       \<lparr>Region = ''A'', Year = 2016, Month = ''May'', Dengue_Cases = 1, Dengue_Deaths = 0\<rparr>,
       \<lparr>Region = ''C'', Year = 2016, Month = ''May'', Dengue_Cases = 3, Dengue_Deaths = 0\<rparr>]"
    by code_simp
  have f: "filter (\<lambda>r. (Year r, Month_Num r) = (2016, Some 5)) ?df = map with_Month_Num
      [\<lparr>Region = ''A'', Year = 2016, Month = ''May'', Dengue_Cases = 1, Dengue_Deaths = 0\<rparr>,
       \<lparr>Region = ''C'', Year = 2016, Month = ''May'', Dengue_Cases = 3, Dengue_Deaths = 0\<rparr>]"
    by code_simp
  from sort_values_stable [of "(2016, Some 5)" ?df] f
  have "filter (\<lambda>r. (Year r, Month_Num r) = (2016, Some 5)) (sort_values ?df) = map with_Month_Num
      [\<lparr>Region = ''A'', Year = 2016, Month = ''May'', Dengue_Cases = 1, Dengue_Deaths = 0\<rparr>,
       \<lparr>Region = ''C'', Year = 2016, Month = ''May'', Dengue_Cases = 3, Dengue_Deaths = 0\<rparr>]"
    by (simp only:)
  with s show ?thesis by (rule conjI)
qed


subsection \<open>C3: negative counts\<close>





subsection \<open>C4: no regions or no years selected\<close>

text \<open>
  C4: for every table, months selection and display mode, when no region or no year is
  selected the main part of the page is the ``showing all data'' notice, and no groups
  are computed.
\<close>

theorem show_all_without_regions_or_years:
  assumes "regions = [] \<or> years = []"
  shows "main_page df regions years months view_option = Showing_all_data"
  using assms by (auto simp: main_page_def)

text \<open>C4 with no year selected, and with no region selected.\<close>

theorem show_all_without_regions_or_years_witness:
  "main_page (map with_Month_Num example_csv) [''A''] [] [''May''] ''Both'' = Showing_all_data \<and>
   main_page (map with_Month_Num example_csv) [] [2016] [] ''Dengue Cases'' = Showing_all_data"
proof -
  have "[''A''] = [] \<or> ([]::int list) = []" by simp
  then have a: "main_page (map with_Month_Num example_csv) [''A''] [] [''May''] ''Both'' =
      Showing_all_data"
    by (rule show_all_without_regions_or_years)
  have "([]::string list) = [] \<or> [2016::int] = []" by simp
  then have "main_page (map with_Month_Num example_csv) [] [2016] [] ''Dengue Cases'' =
      Showing_all_data"
    by (rule show_all_without_regions_or_years)
  with a show ?thesis by (rule conjI)
qed


subsection \<open>C5: a valid submission appends one row\<close>

text \<open>
  C5: for every table and every submission with a region other than the placeholder, one
  of the year options 2010 to 2030 and one of the twelve months, the handler reports success
  and the new table is the old one followed by exactly one row: the region, the year as
  the integer the option spells, the month, the two counts, and as \<^verbatim>\<open>Month_Num\<close> the
  entry of the month in \<^verbatim>\<open>month_mapping\<close>. The length grows by one.
\<close>

theorem add_data_appends_one_row:
  assumes "region \<noteq> ''-- Select Region --''" and "year \<in> set year_texts"
    and "month \<in> set month_names"
  shows "\<exists>y m df'. py_int year = Some y \<and> str_int y = year \<and>
           month_mapping month = Some m \<and> (month, m) \<in> set month_mapping_items \<and>
           add_data df region year month cases deaths = Inr (df', New_data_added) \<and>
           df' = df @ [\<lparr>Region = region, Year = y, Month = month,
                         Dengue_Cases = cases, Dengue_Deaths = deaths,
                         Month_Num = Some m\<rparr>] \<and>
           length df' = length df + 1"
proof -
  from add_data_valid [OF assms] obtain y m where
    "str_int y = year" "py_int year = Some y"
    "month_mapping month = Some m" "(month, m) \<in> set month_mapping_items"
    "add_data df region year month cases deaths =
       Inr (df @ [new_row region y month cases deaths], New_data_added)" by blast
  then show ?thesis by (simp add: new_row_def)
qed

text \<open>C5 for (B, 2016, January) with 120 cases and 3 deaths.\<close>

theorem add_data_appends_one_row_witness:
  "''B'' \<noteq> ''-- Select Region --'' \<and> ''2016'' \<in> set year_texts \<and>
   ''January'' \<in> set month_names \<and>
   add_data (map with_Month_Num example_csv) ''B'' ''2016'' ''January'' 120 3 =
     Inr (map with_Month_Num example_csv @
            [\<lparr>Region = ''B'', Year = 2016, Month = ''January'',
              Dengue_Cases = 120, Dengue_Deaths = 3, Month_Num = Some 1\<rparr>],
          New_data_added)"
proof -
  have r: "''B'' \<noteq> ''-- Select Region --''" by simp
  have y: "py_int ''2016'' = Some 2016" by code_simp
  have m: "month_mapping ''January'' = Some 1" by code_simp
  from add_data_appends_one_row [OF r text_2016_in_year_texts January_in_month_names,
      of "map with_Month_Num example_csv" 120 3]
  have "add_data (map with_Month_Num example_csv) ''B'' ''2016'' ''January'' 120 3 =
     Inr (map with_Month_Num example_csv @
            [\<lparr>Region = ''B'', Year = 2016, Month = ''January'',
              Dengue_Cases = 120, Dengue_Deaths = 3, Month_Num = Some 1\<rparr>],
          New_data_added)"
    unfolding y m by auto
  with r text_2016_in_year_texts January_in_month_names show ?thesis by blast
qed


subsection \<open>C6: a placeholder left in the form\<close>

text \<open>
  C6: for every table and every submission whose region, year or month is still the
  placeholder, the handler shows the validation message and leaves the table as it was.
\<close>

theorem add_data_rejects_placeholder:
  assumes "region = ''-- Select Region --'' \<or> year = ''-- Select Year --'' \<or>
           month = ''-- Select Month --''"
  shows "add_data df region year month cases deaths = Inr (df, Please_select_valid)"
  using assms by (auto simp: add_data_def)

text \<open>C6 with each of the three placeholders in turn.\<close>

theorem add_data_rejects_placeholder_witness:
  "add_data (map with_Month_Num example_csv) ''-- Select Region --'' ''2016'' ''January'' 120 3 =
     Inr (map with_Month_Num example_csv, Please_select_valid) \<and>
   add_data (map with_Month_Num example_csv) ''A'' ''-- Select Year --'' ''January'' 120 3 =
     Inr (map with_Month_Num example_csv, Please_select_valid) \<and>
   add_data (map with_Month_Num example_csv) ''A'' ''2016'' ''-- Select Month --'' 120 3 =
     Inr (map with_Month_Num example_csv, Please_select_valid)"
  using add_data_rejects_placeholder
          [of "''-- Select Region --''" "''2016''" "''January''" "map with_Month_Num example_csv" 120 3]
        add_data_rejects_placeholder
          [of "''A''" "''-- Select Year --''" "''January''" "map with_Month_Num example_csv" 120 3]
        add_data_rejects_placeholder
          [of "''A''" "''2016''" "''-- Select Month --''" "map with_Month_Num example_csv" 120 3]
  by simp


subsection \<open>C7: grouping keeps the sums\<close>

text \<open>
  C7: for every table and every selection, the sum of the \<^verbatim>\<open>Dengue_Cases\<close> of all groups
  equals the sum of \<^verbatim>\<open>Dengue_Cases\<close> over the filtered rows, and likewise for
  \<^verbatim>\<open>Dengue_Deaths\<close>. All sums are sums of the int64 columns.
\<close>

theorem yearly_grouped_sums:
  "sum_list (map sum_Dengue_Cases (yearly_grouped (filtered_df df regions years months))) =
     sum_list (map Dengue_Cases (filtered_df df regions years months)) \<and>
   sum_list (map sum_Dengue_Deaths (yearly_grouped (filtered_df df regions years months))) =
     sum_list (map Dengue_Deaths (filtered_df df regions years months))"
  by (simp only: sum_yearly_grouped_cases sum_yearly_grouped_deaths)

text \<open>C7 on the example table with both regions and both years selected.\<close>

theorem yearly_grouped_sums_witness:
  "yearly_grouped (filtered_df (map with_Month_Num example_csv) [''A'', ''B''] [2015, 2016] []) =
     [\<lparr>group_Year = 2015, group_Region = ''A'', sum_Dengue_Cases = 3, sum_Dengue_Deaths = 0\<rparr>,
      \<lparr>group_Year = 2016, group_Region = ''A'', sum_Dengue_Cases = 10, sum_Dengue_Deaths = 1\<rparr>,
      \<lparr>group_Year = 2016, group_Region = ''B'', sum_Dengue_Cases = 20, sum_Dengue_Deaths = 2\<rparr>] \<and>
   sum_list (map Dengue_Cases
     (filtered_df (map with_Month_Num example_csv) [''A'', ''B''] [2015, 2016] [])) = 33 \<and>
   sum_list (map Dengue_Deaths
     (filtered_df (map with_Month_Num example_csv) [''A'', ''B''] [2015, 2016] [])) = 3"
proof -
  let ?f = "filtered_df (map with_Month_Num example_csv) [''A'', ''B''] [2015, 2016] []"
  have g: "yearly_grouped ?f =
     [\<lparr>group_Year = 2015, group_Region = ''A'', sum_Dengue_Cases = 3, sum_Dengue_Deaths = 0\<rparr>,
      \<lparr>group_Year = 2016, group_Region = ''A'', sum_Dengue_Cases = 10, sum_Dengue_Deaths = 1\<rparr>,
      \<lparr>group_Year = 2016, group_Region = ''B'', sum_Dengue_Cases = 20, sum_Dengue_Deaths = 2\<rparr>]"
    by code_simp
  from yearly_grouped_sums [of "map with_Month_Num example_csv" "[''A'', ''B'']" "[2015, 2016]" "[]"]
  have "sum_list (map Dengue_Cases ?f) = sum_list (map sum_Dengue_Cases (yearly_grouped ?f))"
    and "sum_list (map Dengue_Deaths ?f) = sum_list (map sum_Dengue_Deaths (yearly_grouped ?f))"
    by simp_all
  then have "sum_list (map Dengue_Cases ?f) = 33" and "sum_list (map Dengue_Deaths ?f) = 3"
    unfolding g by simp_all
  with g show ?thesis by simp
qed


subsection \<open>C8: the sorted table is a permutation without \<^verbatim>\<open>Month_Num\<close>\<close>

text \<open>
  C8: for every table (empty or not), the sorted table has as many rows as the table, and
  its rows are, as a multiset, the rows of the table with \<^verbatim>\<open>Month_Num\<close> removed and
  nothing else changed: it is the sorted permutation of the table, mapped through
  \<open>drop_Month_Num\<close>.
\<close>

theorem sorted_df_permutation:
  "length (sorted_df df) = length df \<and>
   mset (sorted_df df) = mset (map drop_Month_Num df) \<and>
   sorted_df df = map drop_Month_Num (sort_values df) \<and>
   mset (sort_values df) = mset df"
  by (simp add: sorted_df_def length_sort_values mset_sort_values)

text \<open>C8 on the example table.\<close>

theorem sorted_df_permutation_witness:
  "sorted_df (map with_Month_Num example_csv) =
     [\<lparr>Region = ''A'', Year = 2015, Month = ''May'', Dengue_Cases = 3, Dengue_Deaths = 0\<rparr>,
      \<lparr>Region = ''B'', Year = 2016, Month = ''January'', Dengue_Cases = 20, Dengue_Deaths = 2\<rparr>,
      \<lparr>Region = ''A'', Year = 2016, Month = ''March'', Dengue_Cases = 10, Dengue_Deaths = 1\<rparr>] \<and>
   length (sorted_df (map with_Month_Num example_csv)) = 3 \<and>
   mset (sorted_df (map with_Month_Num example_csv)) = mset example_csv"
proof -
  let ?df = "map with_Month_Num example_csv"
  have s: "sorted_df ?df =
     [\<lparr>Region = ''A'', Year = 2015, Month = ''May'', Dengue_Cases = 3, Dengue_Deaths = 0\<rparr>,
      \<lparr>Region = ''B'', Year = 2016, Month = ''January'', Dengue_Cases = 20, Dengue_Deaths = 2\<rparr>,
      \<lparr>Region = ''A'', Year = 2016, Month = ''March'', Dengue_Cases = 10, Dengue_Deaths = 1\<rparr>]"
    by code_simp
  have d: "map drop_Month_Num ?df = example_csv"
    by (simp add: example_csv_def with_Month_Num_def drop_Month_Num_def)
  have l: "length ?df = 3" by (simp add: example_csv_def)
  from sorted_df_permutation [of ?df]
  have "length (sorted_df ?df) = length ?df"
    and "mset (sorted_df ?df) = mset (map drop_Month_Num ?df)"
    by blast+
  then have "length (sorted_df ?df) = 3" and "mset (sorted_df ?df) = mset example_csv"
    unfolding d l by blast+
  with s show ?thesis by simp
qed


subsection \<open>C9: the totals do not depend on the selection\<close>

text \<open>
  C9: for every loaded table, any two runs (each with a year selector that holds one of
  its options) complete and show the same total cases and the same total deaths, whatever
  their selections, display modes and form values are: the totals are the sums over the
  whole loaded table.
\<close>

theorem totals_independent_of_selection:
  assumes "new_year a \<in> set years_with_empty" and "new_year b \<in> set years_with_empty"
  shows "\<exists>pa pb. script csv a = Inr pa \<and> script csv b = Inr pb \<and>
           total_cases pa = total_cases pb \<and> total_deaths pa = total_deaths pb \<and>
           total_cases pa = sum_list (map Dengue_Cases csv) \<and>
           total_deaths pa = sum_list (map Dengue_Deaths csv)"
proof -
  from script_completes [OF assms(1)] obtain pa where pa: "script csv a = Inr pa" by blast
  from script_completes [OF assms(2)] obtain pb where pb: "script csv b = Inr pb" by blast
  from script_totals [OF pa] script_totals [OF pb] pa pb show ?thesis by simp
qed

text \<open>C9 on two runs over the example table with different selections and modes.\<close>

theorem totals_independent_of_selection_witness:
  "new_year example_inputs \<in> set years_with_empty \<and>
   ''-- Select Year --'' \<in> set years_with_empty \<and>
   map_sum id total_cases (script example_csv example_inputs) = Inr 33 \<and>
   map_sum id total_deaths (script example_csv example_inputs) = Inr 3 \<and>
   map_sum id total_cases
     (script example_csv
        \<lparr>selected_regions = [''B''], selected_years = [2015, 2016], selected_months = [''May''],
         data_view_option = ''Both'', new_region = ''-- Select Region --'',
         new_year = ''-- Select Year --'', new_month = ''-- Select Month --'',
         new_cases = 0, new_deaths = 0, add_data_clicked = False\<rparr>) = Inr 33 \<and>
   map_sum id total_deaths
     (script example_csv
        \<lparr>selected_regions = [''B''], selected_years = [2015, 2016], selected_months = [''May''],
         data_view_option = ''Both'', new_region = ''-- Select Region --'',
         new_year = ''-- Select Year --'', new_month = ''-- Select Month --'',
         new_cases = 0, new_deaths = 0, add_data_clicked = False\<rparr>) = Inr 3"
proof -
  let ?b = "\<lparr>selected_regions = [''B''], selected_years = [2015, 2016], selected_months = [''May''],
         data_view_option = ''Both'', new_region = ''-- Select Region --'',
         new_year = ''-- Select Year --'', new_month = ''-- Select Month --'',
         new_cases = 0, new_deaths = 0, add_data_clicked = False\<rparr>"
  have ha: "new_year example_inputs \<in> set years_with_empty"
    using text_2016_in_year_texts by (simp add: years_with_empty_def example_inputs_def)
  have p: "''-- Select Year --'' \<in> set years_with_empty" by (simp add: years_with_empty_def)
  then have hb: "new_year ?b \<in> set years_with_empty" by simp
  have c: "sum_list (map Dengue_Cases example_csv) = 33" by (simp add: example_csv_def)
  have d: "sum_list (map Dengue_Deaths example_csv) = 3" by (simp add: example_csv_def)
  from totals_independent_of_selection [OF ha hb, of example_csv] obtain pa pb where
    pa: "script example_csv example_inputs = Inr pa" and pb: "script example_csv ?b = Inr pb"
    and t: "total_cases pa = total_cases pb" "total_deaths pa = total_deaths pb"
      "total_cases pa = 33" "total_deaths pa = 3"
    unfolding c d by blast
  from t have "total_cases pb = 33" "total_deaths pb = 3" by auto
  with t ha p show ?thesis unfolding pa pb by simp
qed


subsection \<open>C10: the year of an appended row is an integer\<close>

text \<open>
  C10: when a submission with one of the year options succeeds, the appended row stores as
  \<^verbatim>\<open>Year\<close> the integer between 2010 and 2030 that the option spells. This integer is
  among the \<^verbatim>\<open>Year\<close> values of the new table, from which the year filter takes its
  options, and the filter's membership test on that integer selects the appended row.
\<close>

theorem appended_Year_is_integer:
  assumes "add_data df region year month cases deaths = Inr (df', New_data_added)"
    and "year \<in> set year_texts"
  shows "\<exists>y. 2010 \<le> y \<and> y \<le> 2030 \<and> str_int y = year \<and> py_int year = Some y \<and>
           df' = df @ [new_row region y month cases deaths] \<and>
           Year (last df') = y \<and>
           y \<in> set (year_options df') \<and>
           filtered_df df' [region] [y] [] =
             filtered_df df [region] [y] [] @ [new_row region y month cases deaths]"
proof -
  from year_texts_cases [OF assms(2)] obtain y where
    y: "2010 \<le> y" "y \<le> 2030" "year = str_int y" by blast
  then have p: "py_int year = Some y" by (simp add: py_int_str_int)
  from add_data_success [OF assms(1)] p
  have df': "df' = df @ [new_row region y month cases deaths]" by simp
  have l: "Year (last df') = y" by (simp add: df' new_row_def)
  have o: "y \<in> set (year_options df')" by (simp add: df' year_options_def new_row_def)
  have f: "filtered_df df' [region] [y] [] =
             filtered_df df [region] [y] [] @ [new_row region y month cases deaths]"
    by (simp add: df' filtered_df_append filtered_df_single new_row_def)
  from y p df' l o f show ?thesis by blast
qed

text \<open>C10 for the option 2017.\<close>

theorem appended_Year_is_integer_witness:
  "''2017'' \<in> set year_texts \<and>
   add_data (map with_Month_Num example_csv) ''B'' ''2017'' ''June'' 7 1 =
     Inr (map with_Month_Num example_csv @ [new_row ''B'' 2017 ''June'' 7 1], New_data_added) \<and>
   Year (last (map with_Month_Num example_csv @ [new_row ''B'' 2017 ''June'' 7 1])) = 2017 \<and>
   filtered_df (map with_Month_Num example_csv @ [new_row ''B'' 2017 ''June'' 7 1])
       [''B''] [2017] [] = [new_row ''B'' 2017 ''June'' 7 1]"
proof -
  let ?df = "map with_Month_Num example_csv"
  let ?df' = "?df @ [new_row ''B'' 2017 ''June'' 7 1]"
  have s: "str_int 2017 = ''2017''"
    by (simp add: str_int_def str_nat.simps digit_char_def char_of_eq_iff)
  have t: "''2017'' \<in> set year_texts" using in_year_texts [of 2017] by (simp add: s)
  have a: "add_data ?df ''B'' ''2017'' ''June'' 7 1 = Inr (?df', New_data_added)" by code_simp
  have p: "py_int ''2017'' = Some 2017" by code_simp
  have e: "filtered_df ?df [''B''] [2017] [] = []" by code_simp
  from appended_Year_is_integer [OF a t] p
  have "Year (last ?df') = 2017"
    and "filtered_df ?df' [''B''] [2017] [] =
           filtered_df ?df [''B''] [2017] [] @ [new_row ''B'' 2017 ''June'' 7 1]"
    by auto
  with t a e show ?thesis by simp
qed

end
